theory Spec2Isabelle
  imports Main "HOL-Library.Word"
begin

section \<open>The register map of debug.h\<close>

text \<open>
  The header consists of six object-like macro definitions, each binding a name to an
  unsuffixed hexadecimal integer literal. The value of such a literal is a non-negative
  mathematical integer; which C type it receives depends on whether that integer fits.
  The constants are therefore embedded as \<open>int\<close>, so that their fitting into 32 bits
  is a statement to be proved and not a consequence of the chosen type.

  \<^verbatim>\<open>
  #define CSR_XADC_TEMPERATURE_ADDR 0xe0005800

  /* cpu_or_bridge */
  #define CSR_CPU_OR_BRIDGE_BASE 0xe0006000

  #define CSR_CPU_OR_BRIDGE_DEBUG_CORE 0xe0006000
  #define CSR_CPU_OR_BRIDGE_DEBUG_DATA 0xe0006004
  #define CSR_CPU_OR_BRIDGE_DEBUG_SYNC 0xe0006008
  #define CSR_CPU_OR_BRIDGE_DEBUG_PACKET_COUNTER 0xe000600c
  \<close>
\<close>

definition CSR_XADC_TEMPERATURE_ADDR :: int where
  "CSR_XADC_TEMPERATURE_ADDR = 0xe0005800"

definition CSR_CPU_OR_BRIDGE_BASE :: int where
  "CSR_CPU_OR_BRIDGE_BASE = 0xe0006000"

definition CSR_CPU_OR_BRIDGE_DEBUG_CORE :: int where
  "CSR_CPU_OR_BRIDGE_DEBUG_CORE = 0xe0006000"

definition CSR_CPU_OR_BRIDGE_DEBUG_DATA :: int where
  "CSR_CPU_OR_BRIDGE_DEBUG_DATA = 0xe0006004"

definition CSR_CPU_OR_BRIDGE_DEBUG_SYNC :: int where
  "CSR_CPU_OR_BRIDGE_DEBUG_SYNC = 0xe0006008"

definition CSR_CPU_OR_BRIDGE_DEBUG_PACKET_COUNTER :: int where
  "CSR_CPU_OR_BRIDGE_DEBUG_PACKET_COUNTER = 0xe000600c"

text \<open>
  The macro definitions in the order in which the header makes them, each name paired
  with the constant it stands for.
\<close>

definition debug_h_defs :: "(string \<times> int) list" where
  "debug_h_defs =
    [(''CSR_XADC_TEMPERATURE_ADDR'', CSR_XADC_TEMPERATURE_ADDR),
     (''CSR_CPU_OR_BRIDGE_BASE'', CSR_CPU_OR_BRIDGE_BASE),
     (''CSR_CPU_OR_BRIDGE_DEBUG_CORE'', CSR_CPU_OR_BRIDGE_DEBUG_CORE),
     (''CSR_CPU_OR_BRIDGE_DEBUG_DATA'', CSR_CPU_OR_BRIDGE_DEBUG_DATA),
     (''CSR_CPU_OR_BRIDGE_DEBUG_SYNC'', CSR_CPU_OR_BRIDGE_DEBUG_SYNC),
     (''CSR_CPU_OR_BRIDGE_DEBUG_PACKET_COUNTER'', CSR_CPU_OR_BRIDGE_DEBUG_PACKET_COUNTER)]"

text \<open>
  The four registers that the header groups under the comment \<open>cpu_or_bridge\<close>, in
  the order of their definitions (the base macro itself is not a register).
\<close>

definition cpu_or_bridge_regs :: "int list" where
  "cpu_or_bridge_regs =
    [CSR_CPU_OR_BRIDGE_DEBUG_CORE, CSR_CPU_OR_BRIDGE_DEBUG_DATA,
     CSR_CPU_OR_BRIDGE_DEBUG_SYNC, CSR_CPU_OR_BRIDGE_DEBUG_PACKET_COUNTER]"

text \<open>
  The interface table of the specification, row by row, kept apart from the definitions
  above so that the two can be compared.
\<close>

definition spec_interface_table :: "(string \<times> int) list" where
  "spec_interface_table =
    [(''CSR_XADC_TEMPERATURE_ADDR'', 0xe0005800),
     (''CSR_CPU_OR_BRIDGE_BASE'', 0xe0006000),
     (''CSR_CPU_OR_BRIDGE_DEBUG_CORE'', 0xe0006000),
     (''CSR_CPU_OR_BRIDGE_DEBUG_DATA'', 0xe0006004),
     (''CSR_CPU_OR_BRIDGE_DEBUG_SYNC'', 0xe0006008),
     (''CSR_CPU_OR_BRIDGE_DEBUG_PACKET_COUNTER'', 0xe000600c)]"


section \<open>The header as a sequence of definitions\<close>

text \<open>
  The preprocessor keeps a table of macros. A \<^verbatim>\<open>#define\<close> enters its name with
  its value, and a later definition of the same name would replace the earlier one.
  \<open>preprocess env ds\<close> is the table after the definitions \<open>ds\<close>, made in order
  from the table \<open>env\<close>.
\<close>

type_synonym macro_env = "string \<rightharpoonup> int"

fun preprocess :: "macro_env \<Rightarrow> (string \<times> int) list \<Rightarrow> macro_env" where
  "preprocess env [] = env"
| "preprocess env ((n, v) # ds) = preprocess (env(n \<mapsto> v)) ds"


section \<open>Auxiliary facts\<close>

lemmas csr_values =
  CSR_XADC_TEMPERATURE_ADDR_def CSR_CPU_OR_BRIDGE_BASE_def
  CSR_CPU_OR_BRIDGE_DEBUG_CORE_def CSR_CPU_OR_BRIDGE_DEBUG_DATA_def
  CSR_CPU_OR_BRIDGE_DEBUG_SYNC_def CSR_CPU_OR_BRIDGE_DEBUG_PACKET_COUNTER_def

text \<open>
  A table in which exactly the second and third entries share a value: two entries with
  different names have different values unless they are those two.
\<close>

lemma alias_table_values_differ:
  assumes "(n, v) \<in> set [(a, x), (b, y), (c, y), (d, z), (e, s), (f, p)]"
    and "(m, w) \<in> set [(a, x), (b, y), (c, y), (d, z), (e, s), (f, p)]"
    and "n \<noteq> m" and "{n, m} \<noteq> {b, c}"
    and "distinct [x, y, z, s, p]"
  shows "v \<noteq> w"
  using assms by (auto simp add: doubleton_eq_iff)

subsection \<open>The macro table\<close>

lemma preprocess_lookup:
  "preprocess env ds n = (case map_of (rev ds) n of None \<Rightarrow> env n | Some v \<Rightarrow> Some v)"
proof (induction ds arbitrary: env)
  case Nil
  show ?case by simp
next
  case (Cons d ds)
  obtain k x where d: "d = (k, x)" by (cases d)
  show ?case
    by (simp add: d Cons.IH map_of_append map_add_def split: option.splits)
qed

lemma preprocess_empty_SomeD:
  assumes "preprocess Map.empty ds n = Some v"
  shows "(n, v) \<in> set ds"
proof -
  from assms have "map_of (rev ds) n = Some v"
    by (simp add: preprocess_lookup split: option.splits)
  then have "(n, v) \<in> set (rev ds)"
    by (rule map_of_SomeD)
  then show ?thesis by simp
qed

lemma preprocess_empty_SomeI:
  assumes "distinct (map fst ds)" and "(n, v) \<in> set ds"
  shows "preprocess Map.empty ds n = Some v"
proof -
  from assms(1) have "distinct (map fst (rev ds))"
    by (simp add: rev_map [symmetric])
  moreover from assms(2) have "(n, v) \<in> set (rev ds)"
    by simp
  ultimately have "map_of (rev ds) n = Some v"
    by (rule map_of_is_SomeI)
  then show ?thesis
    by (simp add: preprocess_lookup)
qed

lemma distinct_names_take:
  "distinct (map fst ds) \<Longrightarrow> distinct (map fst (take i ds))"
  by (simp add: take_map [symmetric])

lemma debug_h_names_distinct: "distinct (map fst debug_h_defs)"
  by (simp add: debug_h_defs_def)

section \<open>Values of the constants\<close>

text \<open>
  C1. Each of the six named constants of the header has exactly the hexadecimal value
  that the interface table of the specification lists for it, and the header defines
  these six names and no others.
\<close>

theorem C1_values_as_listed:
  "CSR_XADC_TEMPERATURE_ADDR = 0xe0005800 \<and>
   CSR_CPU_OR_BRIDGE_BASE = 0xe0006000 \<and>
   CSR_CPU_OR_BRIDGE_DEBUG_CORE = 0xe0006000 \<and>
   CSR_CPU_OR_BRIDGE_DEBUG_DATA = 0xe0006004 \<and>
   CSR_CPU_OR_BRIDGE_DEBUG_SYNC = 0xe0006008 \<and>
   CSR_CPU_OR_BRIDGE_DEBUG_PACKET_COUNTER = 0xe000600c \<and>
   debug_h_defs = spec_interface_table"
  by (simp add: csr_values debug_h_defs_def spec_interface_table_def)

text \<open>
  C2, as stated: the values of the six constants are pairwise distinct. This fails:
  the names \<open>CSR_CPU_OR_BRIDGE_BASE\<close> and \<open>CSR_CPU_OR_BRIDGE_DEBUG_CORE\<close> are two
  different names of the header, and the header gives both the value 0xe0006000.
\<close>

theorem C2_six_values_distinct_counterexample:
  "(''CSR_CPU_OR_BRIDGE_BASE'', CSR_CPU_OR_BRIDGE_BASE) \<in> set debug_h_defs \<and>
   (''CSR_CPU_OR_BRIDGE_DEBUG_CORE'', CSR_CPU_OR_BRIDGE_DEBUG_CORE) \<in> set debug_h_defs \<and>
   ''CSR_CPU_OR_BRIDGE_BASE'' \<noteq> ''CSR_CPU_OR_BRIDGE_DEBUG_CORE'' \<and>
   CSR_CPU_OR_BRIDGE_BASE = CSR_CPU_OR_BRIDGE_DEBUG_CORE"
  by (simp add: debug_h_defs_def csr_values)

text \<open>
  C2, amended: for every two different names among the six, other than the pair
  \<open>CSR_CPU_OR_BRIDGE_BASE\<close> and \<open>CSR_CPU_OR_BRIDGE_DEBUG_CORE\<close>, the values differ.
\<close>

theorem C2_values_distinct_up_to_base_alias:
  assumes "(n, v) \<in> set debug_h_defs" and "(m, w) \<in> set debug_h_defs"
    and "n \<noteq> m"
    and "{n, m} \<noteq> {''CSR_CPU_OR_BRIDGE_BASE'', ''CSR_CPU_OR_BRIDGE_DEBUG_CORE''}"
  shows "v \<noteq> w"
proof -
  have d: "distinct [CSR_XADC_TEMPERATURE_ADDR, CSR_CPU_OR_BRIDGE_BASE,
      CSR_CPU_OR_BRIDGE_DEBUG_DATA, CSR_CPU_OR_BRIDGE_DEBUG_SYNC,
      CSR_CPU_OR_BRIDGE_DEBUG_PACKET_COUNTER]"
    by (simp add: csr_values)
  have e: "CSR_CPU_OR_BRIDGE_DEBUG_CORE = CSR_CPU_OR_BRIDGE_BASE"
    by (simp add: csr_values)
  from assms(1,2) show ?thesis
    unfolding debug_h_defs_def e
    by (rule alias_table_values_differ) (rule assms(3) assms(4) d)+
qed

theorem C2_values_distinct_up_to_base_alias_witness:
  "(''CSR_XADC_TEMPERATURE_ADDR'', CSR_XADC_TEMPERATURE_ADDR) \<in> set debug_h_defs \<and>
   (''CSR_CPU_OR_BRIDGE_BASE'', CSR_CPU_OR_BRIDGE_BASE) \<in> set debug_h_defs \<and>
   ''CSR_XADC_TEMPERATURE_ADDR'' \<noteq> ''CSR_CPU_OR_BRIDGE_BASE'' \<and>
   {''CSR_XADC_TEMPERATURE_ADDR'', ''CSR_CPU_OR_BRIDGE_BASE''} \<noteq>
     {''CSR_CPU_OR_BRIDGE_BASE'', ''CSR_CPU_OR_BRIDGE_DEBUG_CORE''} \<and>
   CSR_XADC_TEMPERATURE_ADDR \<noteq> CSR_CPU_OR_BRIDGE_BASE"
proof -
  have h1: "(''CSR_XADC_TEMPERATURE_ADDR'', CSR_XADC_TEMPERATURE_ADDR) \<in> set debug_h_defs"
    by (simp add: debug_h_defs_def)
  have h2: "(''CSR_CPU_OR_BRIDGE_BASE'', CSR_CPU_OR_BRIDGE_BASE) \<in> set debug_h_defs"
    by (simp add: debug_h_defs_def)
  have h3: "''CSR_XADC_TEMPERATURE_ADDR'' \<noteq> ''CSR_CPU_OR_BRIDGE_BASE''"
    by simp
  have h4: "{''CSR_XADC_TEMPERATURE_ADDR'', ''CSR_CPU_OR_BRIDGE_BASE''} \<noteq>
      {''CSR_CPU_OR_BRIDGE_BASE'', ''CSR_CPU_OR_BRIDGE_DEBUG_CORE''}"
    by (simp add: doubleton_eq_iff)
  note r = C2_values_distinct_up_to_base_alias [OF h1 h2 h3 h4]
  show ?thesis by (rule conjI h1 h2 h3 h4 r)+
qed


section \<open>The cpu_or_bridge block\<close>

text \<open>
  C3. The four debug registers of the cpu_or_bridge block are strictly increasing,
  each consecutive pair differs by exactly 4, and the four addresses are unique.
\<close>

theorem C3_block_increasing_by_four:
  "CSR_CPU_OR_BRIDGE_DEBUG_CORE < CSR_CPU_OR_BRIDGE_DEBUG_DATA \<and>
   CSR_CPU_OR_BRIDGE_DEBUG_DATA < CSR_CPU_OR_BRIDGE_DEBUG_SYNC \<and>
   CSR_CPU_OR_BRIDGE_DEBUG_SYNC < CSR_CPU_OR_BRIDGE_DEBUG_PACKET_COUNTER \<and>
   CSR_CPU_OR_BRIDGE_DEBUG_DATA - CSR_CPU_OR_BRIDGE_DEBUG_CORE = 4 \<and>
   CSR_CPU_OR_BRIDGE_DEBUG_SYNC - CSR_CPU_OR_BRIDGE_DEBUG_DATA = 4 \<and>
   CSR_CPU_OR_BRIDGE_DEBUG_PACKET_COUNTER - CSR_CPU_OR_BRIDGE_DEBUG_SYNC = 4 \<and>
   distinct cpu_or_bridge_regs"
  by (simp add: cpu_or_bridge_regs_def csr_values)

text \<open>
  C4. \<open>CSR_CPU_OR_BRIDGE_DEBUG_CORE\<close> equals \<open>CSR_CPU_OR_BRIDGE_BASE\<close>, and for each
  index \<open>i\<close> from 0 to 3 the \<open>i\<close>-th debug register lies at the base plus \<open>4 * i\<close>.
  The same holds for the sum computed in 32-bit unsigned arithmetic, as C computes it.
\<close>

theorem C4_block_contiguous_from_base:
  assumes "i < 4"
  shows "CSR_CPU_OR_BRIDGE_DEBUG_CORE = CSR_CPU_OR_BRIDGE_BASE \<and>
    length cpu_or_bridge_regs = 4 \<and>
    cpu_or_bridge_regs ! i = CSR_CPU_OR_BRIDGE_BASE + 4 * int i \<and>
    (word_of_int (cpu_or_bridge_regs ! i) :: 32 word) =
      word_of_int CSR_CPU_OR_BRIDGE_BASE + 4 * of_nat i"
proof -
  from assms have "i = 0 \<or> i = 1 \<or> i = 2 \<or> i = 3"
    by arith
  then show ?thesis
    by (elim disjE) (simp_all add: cpu_or_bridge_regs_def csr_values)
qed

theorem C4_block_contiguous_from_base_witness:
  "(2::nat) < 4 \<and>
   CSR_CPU_OR_BRIDGE_DEBUG_CORE = CSR_CPU_OR_BRIDGE_BASE \<and>
   CSR_CPU_OR_BRIDGE_DEBUG_SYNC = CSR_CPU_OR_BRIDGE_BASE + 8"
proof -
  have h: "(2::nat) < 4" by simp
  have r: "cpu_or_bridge_regs ! 2 = CSR_CPU_OR_BRIDGE_DEBUG_SYNC"
    by (simp add: cpu_or_bridge_regs_def)
  from h r C4_block_contiguous_from_base [OF h] show ?thesis by simp
qed

text \<open>
  C5. Leaving the base macro aside, the five register addresses of the header are
  pairwise distinct, and so are their names.
\<close>

theorem C5_five_registers_distinct:
  "map snd (filter (\<lambda>d. fst d \<noteq> ''CSR_CPU_OR_BRIDGE_BASE'') debug_h_defs) =
     [CSR_XADC_TEMPERATURE_ADDR, CSR_CPU_OR_BRIDGE_DEBUG_CORE, CSR_CPU_OR_BRIDGE_DEBUG_DATA,
      CSR_CPU_OR_BRIDGE_DEBUG_SYNC, CSR_CPU_OR_BRIDGE_DEBUG_PACKET_COUNTER] \<and>
   distinct [CSR_XADC_TEMPERATURE_ADDR, CSR_CPU_OR_BRIDGE_DEBUG_CORE,
      CSR_CPU_OR_BRIDGE_DEBUG_DATA, CSR_CPU_OR_BRIDGE_DEBUG_SYNC,
      CSR_CPU_OR_BRIDGE_DEBUG_PACKET_COUNTER] \<and>
   distinct (map fst (filter (\<lambda>d. fst d \<noteq> ''CSR_CPU_OR_BRIDGE_BASE'') debug_h_defs))"
  by (simp add: debug_h_defs_def csr_values)

text \<open>
  C8. The temperature register lies below the base of the cpu_or_bridge block, hence
  outside the half-open range from 0xe0006000 to 0xe0006010 in which the four debug
  registers lie, and it equals none of them.
\<close>

theorem C8_xadc_outside_block:
  "CSR_XADC_TEMPERATURE_ADDR < CSR_CPU_OR_BRIDGE_BASE \<and>
   CSR_XADC_TEMPERATURE_ADDR \<notin> set cpu_or_bridge_regs \<and>
   list_all (\<lambda>a. 0xe0006000 \<le> a \<and> a < 0xe0006010) cpu_or_bridge_regs \<and>
   \<not> (0xe0006000 \<le> CSR_XADC_TEMPERATURE_ADDR \<and> CSR_XADC_TEMPERATURE_ADDR < 0xe0006010)"
  by (simp add: cpu_or_bridge_regs_def csr_values)


section \<open>Width and alignment\<close>

text \<open>
  C7. Every one of the six values is at least 0 and below \<open>2 ^ 32\<close>, so that it is
  represented without loss by a 32-bit unsigned integer.
\<close>

theorem C7_values_fit_32_bits:
  assumes "(n, v) \<in> set debug_h_defs"
  shows "0 \<le> v \<and> v < 2 ^ 32 \<and> uint (word_of_int v :: 32 word) = v"
proof -
  from assms have b: "0 \<le> v \<and> v < 2 ^ 32"
    by (auto simp add: debug_h_defs_def csr_values)
  then have "uint (word_of_int v :: 32 word) = v"
    by (simp add: uint_word_of_int_eq take_bit_int_eq_self)
  with b show ?thesis by simp
qed

theorem C7_values_fit_32_bits_witness:
  "(''CSR_CPU_OR_BRIDGE_DEBUG_PACKET_COUNTER'', CSR_CPU_OR_BRIDGE_DEBUG_PACKET_COUNTER)
     \<in> set debug_h_defs \<and>
   0 \<le> CSR_CPU_OR_BRIDGE_DEBUG_PACKET_COUNTER \<and>
   CSR_CPU_OR_BRIDGE_DEBUG_PACKET_COUNTER < 2 ^ 32"
proof -
  have h: "(''CSR_CPU_OR_BRIDGE_DEBUG_PACKET_COUNTER'', CSR_CPU_OR_BRIDGE_DEBUG_PACKET_COUNTER)
      \<in> set debug_h_defs"
    by (simp add: debug_h_defs_def)
  from h C7_values_fit_32_bits [OF h] show ?thesis by blast
qed

text \<open>
  C9. Every one of the six values, the temperature register included, is divisible
  by 4.
\<close>

theorem C9_values_aligned:
  assumes "(n, v) \<in> set debug_h_defs"
  shows "4 dvd v \<and> v mod 4 = 0"
  using assms by (auto simp add: debug_h_defs_def csr_values)

theorem C9_values_aligned_witness:
  "(''CSR_XADC_TEMPERATURE_ADDR'', CSR_XADC_TEMPERATURE_ADDR) \<in> set debug_h_defs \<and>
   4 dvd CSR_XADC_TEMPERATURE_ADDR"
proof -
  have h: "(''CSR_XADC_TEMPERATURE_ADDR'', CSR_XADC_TEMPERATURE_ADDR) \<in> set debug_h_defs"
    by (simp add: debug_h_defs_def)
  from h C9_values_aligned [OF h] show ?thesis by blast
qed


section \<open>Immutability\<close>

text \<open>
  C10. The header's definitions are the only operations there are. Whatever value a
  name has after the first \<open>i\<close> definitions, it has after any later number \<open>j\<close>
  of them and at the end of the header, so that no definition changes a constant
  defined before it; any two evaluations of a name, each at some point of the header
  where the name is defined, give the same value; and the names that have a value are
  those of the six constants, with the values the header gives them.
\<close>

theorem C10_constants_never_change:
  assumes "preprocess Map.empty (take i debug_h_defs) n = Some v"
  shows "(i \<le> j \<longrightarrow> preprocess Map.empty (take j debug_h_defs) n = Some v) \<and>
    (preprocess Map.empty (take k debug_h_defs) n = Some w \<longrightarrow> w = v) \<and>
    preprocess Map.empty debug_h_defs n = Some v \<and>
    (n, v) \<in> set debug_h_defs"
proof -
  from assms have m: "(n, v) \<in> set (take i debug_h_defs)"
    by (rule preprocess_empty_SomeD)
  then have all: "(n, v) \<in> set debug_h_defs"
    by (rule in_set_takeD)
  have final: "preprocess Map.empty debug_h_defs n = Some v"
    using debug_h_names_distinct all by (rule preprocess_empty_SomeI)
  have later: "preprocess Map.empty (take j debug_h_defs) n = Some v" if "i \<le> j"
  proof -
    from that have "set (take i debug_h_defs) \<subseteq> set (take j debug_h_defs)"
      by (rule set_take_subset_set_take)
    with m have "(n, v) \<in> set (take j debug_h_defs)"
      by blast
    with distinct_names_take [OF debug_h_names_distinct]
    show ?thesis by (rule preprocess_empty_SomeI)
  qed
  have same: "w = v" if "preprocess Map.empty (take k debug_h_defs) n = Some w"
  proof -
    from that have "(n, w) \<in> set (take k debug_h_defs)"
      by (rule preprocess_empty_SomeD)
    then have "(n, w) \<in> set debug_h_defs"
      by (rule in_set_takeD)
    with debug_h_names_distinct have "preprocess Map.empty debug_h_defs n = Some w"
      by (rule preprocess_empty_SomeI)
    with final show ?thesis by simp
  qed
  from later same final all show ?thesis by blast
qed

theorem C10_constants_never_change_witness:
  "preprocess Map.empty (take 3 debug_h_defs) ''CSR_CPU_OR_BRIDGE_DEBUG_CORE'' =
     Some CSR_CPU_OR_BRIDGE_DEBUG_CORE \<and>
   (3::nat) \<le> 5 \<and>
   preprocess Map.empty (take 5 debug_h_defs) ''CSR_CPU_OR_BRIDGE_DEBUG_CORE'' =
     Some 0xe0006000 \<and>
   preprocess Map.empty (take 5 debug_h_defs) ''CSR_CPU_OR_BRIDGE_DEBUG_CORE'' =
     Some CSR_CPU_OR_BRIDGE_DEBUG_CORE \<and>
   0xe0006000 = CSR_CPU_OR_BRIDGE_DEBUG_CORE \<and>
   preprocess Map.empty debug_h_defs ''CSR_CPU_OR_BRIDGE_DEBUG_CORE'' =
     Some CSR_CPU_OR_BRIDGE_DEBUG_CORE"
proof -
  have h: "preprocess Map.empty (take 3 debug_h_defs) ''CSR_CPU_OR_BRIDGE_DEBUG_CORE'' =
      Some CSR_CPU_OR_BRIDGE_DEBUG_CORE"
    by (simp add: debug_h_defs_def)
  have le: "(3::nat) \<le> 5"
    by simp
  have hk: "preprocess Map.empty (take 5 debug_h_defs) ''CSR_CPU_OR_BRIDGE_DEBUG_CORE'' =
      Some 0xe0006000"
    by (simp add: debug_h_defs_def csr_values)
  note r = C10_constants_never_change [OF h, of 5 5 "0xe0006000"]
  note a = r [THEN conjunct1, THEN mp, OF le]
  note b = r [THEN conjunct2, THEN conjunct1, THEN mp, OF hk]
  note c = r [THEN conjunct2, THEN conjunct2, THEN conjunct1]
  show ?thesis by (rule conjI h le hk a b c)+
qed

end
